theory Spec2Isabelle
  imports Complex_Main "HOL-Library.AList" "HOL-Library.Multiset" "HOL-Library.Product_Lexorder"
begin

section \<open>Numbers and exceptions\<close>

text \<open>
  The edge finder (\<^verbatim>\<open>scripts/edge_finder.py\<close>, class \<^verbatim>\<open>EdgeFinder\<close>) and the
  DRatings analyzer (\<^verbatim>\<open>scripts/dratings.py\<close>, class \<^verbatim>\<open>DRatingsAnalyzer\<close>) compute with
  Python \<^verbatim>\<open>int\<close> (unbounded, modelled as \<^typ>\<open>int\<close>) and Python \<^verbatim>\<open>float\<close>.
  A float is modelled as a \<^typ>\<open>real\<close>: the arithmetic is exact, the rounding of IEEE
  doubles is not part of the model. Every Python exception that the modelled
  code can raise is a value of \<open>error\<close>, and a function that can raise returns
  \<open>error + 'a\<close>.
\<close>

datatype error = ZeroDivisionError | KeyError | ValueError

definition bind_err :: "error + 'a \<Rightarrow> ('a \<Rightarrow> error + 'b) \<Rightarrow> error + 'b" where
  "bind_err m f = (case m of Inl e \<Rightarrow> Inl e | Inr x \<Rightarrow> f x)"

text \<open>Python's \<^verbatim>\<open>a / b\<close> on numbers: raises \<^verbatim>\<open>ZeroDivisionError\<close> when \<^verbatim>\<open>b\<close> is zero.\<close>

definition py_truediv :: "real \<Rightarrow> real \<Rightarrow> error + real" where
  "py_truediv a b = (if b = 0 then Inl ZeroDivisionError else Inr (a / b))"


subsection \<open>Odds and probabilities\<close>

text \<open>
  \<^verbatim>\<open>odds_to_probability\<close> is the same text in both classes:
  \<^verbatim>\<open>if odds > 0: return 100 / (odds + 100)\<close>,
  \<^verbatim>\<open>else: return abs(odds) / (abs(odds) + 100)\<close>.
\<close>

definition odds_to_probability :: "int \<Rightarrow> error + real" where
  "odds_to_probability odds =
     (if odds > 0 then py_truediv 100 (real_of_int (odds + 100))
      else py_truediv (real_of_int \<bar>odds\<bar>) (real_of_int (\<bar>odds\<bar> + 100)))"



subsection \<open>Edge percentage and stake\<close>

text \<open>
  \<^verbatim>\<open>EdgeFinder.calculate_edge\<close>: \<^verbatim>\<open>if market_prob <= 0: return 0\<close>, then
  \<^verbatim>\<open>return ((model_prob - market_prob) / market_prob) * 100\<close>.
\<close>

definition calculate_edge :: "real \<Rightarrow> real \<Rightarrow> error + real" where
  "calculate_edge model_prob market_prob =
     (if market_prob \<le> 0 then Inr 0
      else bind_err (py_truediv (model_prob - market_prob) market_prob) (\<lambda>q. Inr (q * 100)))"

text \<open>
  \<^verbatim>\<open>DRatingsAnalyzer.calculate_edge\<close>: the guard is \<^verbatim>\<open>if market_prob == 0: return 0\<close>.
\<close>

definition dr_calculate_edge :: "real \<Rightarrow> real \<Rightarrow> error + real" where
  "dr_calculate_edge model_prob market_prob =
     (if market_prob = 0 then Inr 0
      else bind_err (py_truediv (model_prob - market_prob) market_prob) (\<lambda>q. Inr (q * 100)))"

text \<open>
  \<^verbatim>\<open>EdgeFinder.kelly_criterion(edge_prob, market_prob, bankroll=1000)\<close>.
\<close>

definition kelly_criterion :: "real \<Rightarrow> real \<Rightarrow> real \<Rightarrow> error + real" where
  "kelly_criterion edge_prob market_prob bankroll =
     (if market_prob \<le> 0 \<or> edge_prob \<le> 0 then Inr 0
      else bind_err (py_truediv 1 market_prob) (\<lambda>r.
        let odds = r - 1;
            edge = edge_prob - market_prob
        in if edge \<le> 0 then Inr 0
           else bind_err (py_truediv edge odds) (\<lambda>kelly_fraction.
             let optimal_bet = bankroll * kelly_fraction
             in Inr (min optimal_bet (bankroll * 0.05)))))"

section \<open>Team names\<close>

text \<open>
  A Python \<^verbatim>\<open>str\<close> is modelled as a \<^typ>\<open>string\<close> whose characters are the code points
  below 256. \<^verbatim>\<open>str.strip()\<close> removes leading and trailing characters for which
  \<^verbatim>\<open>str.isspace\<close> holds; below 256 these are U+0009..U+000D, U+001C..U+0020, U+0085
  and U+00A0.
\<close>

definition py_isspace :: "char \<Rightarrow> bool" where
  "py_isspace c =
     (let n = (of_char c :: nat)
      in (9 \<le> n \<and> n \<le> 13) \<or> (28 \<le> n \<and> n \<le> 32) \<or> n = 133 \<or> n = 160)"

definition py_strip :: "string \<Rightarrow> string" where
  "py_strip s = rev (dropWhile py_isspace (rev (dropWhile py_isspace s)))"

text \<open>
  \<^verbatim>\<open>s.replace(old, new)\<close>: every non-overlapping occurrence of \<^verbatim>\<open>old\<close>, found from the
  left, is replaced by \<^verbatim>\<open>new\<close>. With an empty \<^verbatim>\<open>old\<close> Python puts \<^verbatim>\<open>new\<close> before
  every character and at the end.
\<close>

fun py_replace :: "string \<Rightarrow> string \<Rightarrow> string \<Rightarrow> string" where
  "py_replace old new [] = (if old = [] then new else [])"
| "py_replace old new (c # cs) =
     (if old = [] then new @ c # py_replace old new cs
      else if take (length old) (c # cs) = old
           then new @ py_replace old new (drop (length old) (c # cs))
           else c # py_replace old new cs)"

text \<open>\<^verbatim>\<open>old in s\<close> on strings: \<^verbatim>\<open>old\<close> occurs in \<^verbatim>\<open>s\<close> as a substring.\<close>

fun py_contains :: "string \<Rightarrow> string \<Rightarrow> bool" where
  "py_contains old [] = (old = [])"
| "py_contains old (c # cs) = (take (length old) (c # cs) = old \<or> py_contains old cs)"

text \<open>
  \<^verbatim>\<open>EdgeFinder.normalize_team_names\<close>. The dictionary \<^verbatim>\<open>name_mapping\<close> is local to the
  method; \<^verbatim>\<open>name_mapping.get(name, name)\<close> is the lookup with the name itself as default.
\<close>

definition name_mapping :: "(string \<times> string) list" where
  "name_mapping =
     [(''UNC'', ''North Carolina''),
      (''Duke'', ''Duke''),
      (''UCLA'', ''UCLA''),
      (''UConn'', ''Connecticut''),
      (''ASU'', ''Arizona State'')]"

definition normalize_team_names :: "string \<Rightarrow> string" where
  "normalize_team_names team_name =
     (let name = py_strip team_name;
          name = py_replace ''University of '' '''' name;
          name = py_replace '' University'' '''' name;
          name = py_replace '' State'' '' St'' name;
          name = py_replace ''College'' '''' name
      in case map_of name_mapping name of Some canonical \<Rightarrow> canonical | None \<Rightarrow> name)"

text \<open>
  The resolver as the specification words it (section 4.1): trim; strip the fillers
  \<^verbatim>\<open>"University of "\<close>, \<^verbatim>\<open>" University"\<close> and \<^verbatim>\<open>"College"\<close>; look the result up in the alias
  table; without an alias the stripped string is the canonical identity.
\<close>

definition resolve_spec :: "(string \<times> string) list \<Rightarrow> string \<Rightarrow> string" where
  "resolve_spec aliases raw_name =
     (let name = py_strip raw_name;
          name = py_replace ''University of '' '''' name;
          name = py_replace '' University'' '''' name;
          name = py_replace ''College'' '''' name
      in case map_of aliases name of Some canonical \<Rightarrow> canonical | None \<Rightarrow> name)"

section \<open>Records of the pipeline\<close>

text \<open>
  The sources exchange JSON dictionaries. A dictionary with a fixed set of optional
  keys is a record of options: \<open>None\<close> is a key that is missing (or, for the numbers,
  holds \<^verbatim>\<open>None\<close>, which the code treats the same way). A game as a source adapter
  returns it (\<^verbatim>\<open>DRatingsAnalyzer.parse_game_container\<close> builds one):
\<close>

record pred_dict =
  model_win_prob_away :: "real option"
  model_win_prob_home :: "real option"
  predicted_spread :: "real option"
  predicted_total :: "real option"

record market_dict =
  market_spread :: "real option"
  market_total :: "real option"
  away_ml_odds :: "int option"
  home_ml_odds :: "int option"

record game_dict =
  date :: "string option"
  away_team :: "string option"
  home_team :: "string option"
  predictions :: "pred_dict option"
  market_data :: "market_dict option"

text \<open>
  The dictionary \<^verbatim>\<open>matched_game\<close> of \<^verbatim>\<open>match_games_across_sources\<close>. Its
  \<^verbatim>\<open>'predictions'\<close> entry maps a source to that source's game; insertion order is kept,
  as in a Python \<^verbatim>\<open>dict\<close>. (Its \<^verbatim>\<open>'consensus'\<close> entry is created empty and never read.)
\<close>

record matched_game =
  mg_away_team :: string
  mg_home_team :: string
  mg_date :: string
  mg_predictions :: "(string \<times> game_dict) list"

section \<open>Game matcher\<close>

text \<open>\<^verbatim>\<open>EdgeFinder.is_same_game(game, target_away, target_home)\<close>.\<close>

definition is_same_game :: "game_dict \<Rightarrow> string \<Rightarrow> string \<Rightarrow> bool" where
  "is_same_game game target_away target_home =
     (case (away_team game, home_team game) of
        (Some a, Some h) \<Rightarrow>
          normalize_team_names a = target_away \<and> normalize_team_names h = target_home
      | _ \<Rightarrow> False)"

text \<open>
  The anchor: the first of \<^verbatim>\<open>['dratings', 'cbbpy', 'barttorvik']\<close> with
  \<^verbatim>\<open>source in predictions and predictions[source]\<close> (a non-empty list).
\<close>

definition base_source_of :: "(string \<times> game_dict list) list \<Rightarrow> string option" where
  "base_source_of preds =
     find (\<lambda>source. case map_of preds source of Some games \<Rightarrow> games \<noteq> [] | None \<Rightarrow> False)
       [''dratings'', ''cbbpy'', ''barttorvik'']"

text \<open>
  The inner loop \<^verbatim>\<open>for source, games in predictions.items()\<close>: the anchor is skipped,
  and the first game of a source that \<^verbatim>\<open>is_same_game\<close> accepts is stored under the
  source (\<^verbatim>\<open>break\<close> after the first).
\<close>

fun attach_matches ::
  "string \<Rightarrow> string \<Rightarrow> string \<Rightarrow> (string \<times> game_dict list) list \<Rightarrow>
   (string \<times> game_dict) list \<Rightarrow> (string \<times> game_dict) list" where
  "attach_matches base away home [] acc = acc"
| "attach_matches base away home ((source, games) # rest) acc =
     (if source = base then attach_matches base away home rest acc
      else case find (\<lambda>game. is_same_game game away home) games of
             None \<Rightarrow> attach_matches base away home rest acc
           | Some game \<Rightarrow> attach_matches base away home rest (AList.update source game acc))"

text \<open>One iteration of \<^verbatim>\<open>for base_game in predictions[base_source]\<close>; \<open>None\<close> is \<^verbatim>\<open>continue\<close>.\<close>

definition match_base_game ::
  "string \<Rightarrow> (string \<times> game_dict list) list \<Rightarrow> game_dict \<Rightarrow> matched_game option" where
  "match_base_game base preds base_game =
     (case (away_team base_game, home_team base_game) of
        (Some a, Some h) \<Rightarrow>
          (let away = normalize_team_names a;
               home = normalize_team_names h
           in Some \<lparr>mg_away_team = away,
                    mg_home_team = home,
                    mg_date = (case date base_game of Some d \<Rightarrow> d | None \<Rightarrow> ''''),
                    mg_predictions = attach_matches base away home preds [(base, base_game)]\<rparr>)
      | _ \<Rightarrow> None)"

definition match_games_across_sources ::
  "(string \<times> game_dict list) list \<Rightarrow> matched_game list" where
  "match_games_across_sources preds =
     (case base_source_of preds of
        None \<Rightarrow> []
      | Some base \<Rightarrow>
          (case map_of preds base of
             None \<Rightarrow> []
           | Some base_games \<Rightarrow> List.map_filter (match_base_game base preds) base_games))"

section \<open>Consensus aggregator\<close>

text \<open>
  The four lists that \<^verbatim>\<open>calculate_consensus_prediction\<close> fills, and the key of
  \<^verbatim>\<open>prediction['predictions']\<close> each is read from.
\<close>

datatype metric = Away_win_prob | Home_win_prob | Spread | Total

fun metric_field :: "metric \<Rightarrow> pred_dict \<Rightarrow> real option" where
  "metric_field Away_win_prob = model_win_prob_away"
| "metric_field Home_win_prob = model_win_prob_home"
| "metric_field Spread = predicted_spread"
| "metric_field Total = predicted_total"

text \<open>
  The result dictionary has, for a metric \<^verbatim>\<open>key\<close>, the three entries \<^verbatim>\<open>avg_key\<close>,
  \<^verbatim>\<open>std_key\<close> and \<^verbatim>\<open>count_key\<close> together or none of them: a map from the metric to
  the three values.
\<close>

record consensus_stat =
  avg :: real
  std :: real
  count :: nat

type_synonym consensus = "metric \<Rightarrow> consensus_stat option"

text \<open>
  The test \<^verbatim>\<open>'k' in pred_data and pred_data['k']\<close>: the key is there and its value is
  truthy. A number is truthy when it is not zero.
\<close>

definition truthy :: "real option \<Rightarrow> bool" where
  "truthy v = (case v of None \<Rightarrow> False | Some x \<Rightarrow> x \<noteq> 0)"

text \<open>
  The loop \<^verbatim>\<open>for source, prediction in predictions.items()\<close>, for one of the four lists;
  a game without the key \<^verbatim>\<open>'predictions'\<close> adds nothing.
\<close>

fun collect_values :: "(pred_dict \<Rightarrow> real option) \<Rightarrow> (string \<times> game_dict) list \<Rightarrow> real list" where
  "collect_values field [] = []"
| "collect_values field ((source, prediction) # rest) =
     (case predictions prediction of
        None \<Rightarrow> collect_values field rest
      | Some pred_data \<Rightarrow>
          (if truthy (field pred_data)
           then (case field pred_data of
                   Some v \<Rightarrow> v # collect_values field rest
                 | None \<Rightarrow> collect_values field rest)
           else collect_values field rest))"

text \<open>
  \<^verbatim>\<open>np.mean\<close> and \<^verbatim>\<open>np.std\<close> (with the default \<^verbatim>\<open>ddof=0\<close>: the square root of the mean of
  the squared deviations from the mean). Both are only called on a non-empty list.
\<close>

definition np_mean :: "real list \<Rightarrow> real" where
  "np_mean xs = sum_list xs / real (length xs)"

definition np_std :: "real list \<Rightarrow> real" where
  "np_std xs = sqrt (np_mean (map (\<lambda>x. \<bar>x - np_mean xs\<bar> ^ 2) xs))"

definition calculate_consensus_prediction :: "matched_game \<Rightarrow> consensus" where
  "calculate_consensus_prediction matched_game key =
     (let values = collect_values (metric_field key) (mg_predictions matched_game)
      in if values \<noteq> []
         then Some \<lparr>avg = np_mean values,
                   std = (if length values > 1 then np_std values else 0),
                   count = length values\<rparr>
         else None)"

text \<open>
  The aggregation as the specification words it (section 4.3): a value is present when
  the source reports it, whatever the number.
\<close>

fun present_values :: "(pred_dict \<Rightarrow> real option) \<Rightarrow> (string \<times> game_dict) list \<Rightarrow> real list" where
  "present_values field [] = []"
| "present_values field ((source, prediction) # rest) =
     (case predictions prediction of
        None \<Rightarrow> present_values field rest
      | Some pred_data \<Rightarrow>
          (case field pred_data of
             None \<Rightarrow> present_values field rest
           | Some v \<Rightarrow> v # present_values field rest))"

section \<open>Confidence\<close>

text \<open>
  \<^verbatim>\<open>EdgeFinder.calculate_confidence(consensus, metric_type)\<close>;
  \<^verbatim>\<open>consensus.get(count_key, 0)\<close> and \<^verbatim>\<open>consensus.get(std_key, 0)\<close> are 0 for an absent
  metric.
\<close>

definition calculate_confidence :: "consensus \<Rightarrow> metric \<Rightarrow> real" where
  "calculate_confidence consensus metric_type =
     (let source_count = (case consensus metric_type of None \<Rightarrow> 0 | Some st \<Rightarrow> count st);
          std_dev = (case consensus metric_type of None \<Rightarrow> 0 | Some st \<Rightarrow> std st)
      in if source_count = 0 then 0
         else (let source_score = min (real source_count / 3) 1;
                   agreement_score = max 0 (1 - std_dev * 4)
               in (source_score * 0.6 + agreement_score * 0.4) * 100))"

section \<open>Edge evaluator of the edge finder\<close>

record edge =
  edge_type :: string
  team :: string
  side :: string
  model_prob :: real
  market_prob :: real
  edge_percent :: real
  kelly_bet_amount :: real
  confidence :: real
  recommended :: bool

text \<open>
  \<^verbatim>\<open>EdgeFinder.identify_game_edges(game, consensus, min_edge)\<close> takes no market line.
  It starts with
  \<^verbatim>\<open># Get market data (would need to implement odds scraping)\<close>,
  \<^verbatim>\<open># For now, use placeholder odds\<close> and the dictionary \<^verbatim>\<open>placeholder_market\<close>, of which
  only the two moneyline odds are read.
\<close>

record placeholder_dict =
  ph_away_ml_odds :: int
  ph_home_ml_odds :: int
  ph_spread :: real
  ph_total :: real

definition placeholder_market :: placeholder_dict where
  "placeholder_market =
     \<lparr>ph_away_ml_odds = 110, ph_home_ml_odds = - 110, ph_spread = 2.5, ph_total = 145\<rparr>"

text \<open>
  The two moneyline blocks of the method are the same text up to the side; this is one
  block, with the team, the side and its metric and the odds as arguments.
\<close>

definition moneyline_block ::
  "consensus \<Rightarrow> real \<Rightarrow> string \<Rightarrow> string \<Rightarrow> metric \<Rightarrow> int \<Rightarrow> error + edge list" where
  "moneyline_block consensus min_edge team_name side_name key ml_odds =
     (case consensus key of
        None \<Rightarrow> Inr []
      | Some st \<Rightarrow>
          bind_err (odds_to_probability ml_odds) (\<lambda>market_p.
          bind_err (calculate_edge (avg st) market_p) (\<lambda>e.
            if \<bar>e\<bar> \<ge> min_edge
            then bind_err (kelly_criterion (avg st) market_p 1000) (\<lambda>kelly_bet.
                   Inr [\<lparr>edge_type = ''moneyline'',
                         team = team_name,
                         side = side_name,
                         model_prob = avg st,
                         market_prob = market_p,
                         edge_percent = e,
                         kelly_bet_amount = kelly_bet,
                         confidence = calculate_confidence consensus key,
                         recommended = (e > 0)\<rparr>])
            else Inr [])))"

definition identify_game_edges :: "matched_game \<Rightarrow> consensus \<Rightarrow> real \<Rightarrow> error + edge list" where
  "identify_game_edges game consensus min_edge =
     bind_err (moneyline_block consensus min_edge (mg_away_team game) ''away'' Away_win_prob
                 (ph_away_ml_odds placeholder_market)) (\<lambda>away_edges.
     bind_err (moneyline_block consensus min_edge (mg_home_team game) ''home'' Home_win_prob
                 (ph_home_ml_odds placeholder_market)) (\<lambda>home_edges.
       Inr (away_edges @ home_edges)))"

section \<open>Ranked reports of the edge finder\<close>

record edge_game =
  game :: string
  game_date :: string
  game_consensus :: consensus
  edges :: "edge list"
  max_edge :: real
  sources_count :: nat

text \<open>Python's \<^verbatim>\<open>max\<close> of a sequence: \<^verbatim>\<open>ValueError\<close> on an empty one.\<close>

fun py_max :: "real list \<Rightarrow> error + real" where
  "py_max [] = Inl ValueError"
| "py_max (x # xs) = Inr (fold max xs x)"

text \<open>
  \<^verbatim>\<open>list.sort(key=k, reverse=True)\<close> keeps the order of elements with equal keys:
  CPython reverses the list, sorts it stably and reverses the result.
\<close>

definition sort_reverse :: "('a \<Rightarrow> 'k::linorder) \<Rightarrow> 'a list \<Rightarrow> 'a list" where
  "sort_reverse k xs = rev (sort_key k (rev xs))"

text \<open>The body of \<^verbatim>\<open>for game in matched_games\<close> in \<^verbatim>\<open>EdgeFinder.find_edges\<close>.\<close>

definition report_of_game :: "real \<Rightarrow> matched_game \<Rightarrow> error + edge_game list" where
  "report_of_game min_edge g =
     (let consensus = calculate_consensus_prediction g
      in bind_err (identify_game_edges g consensus min_edge) (\<lambda>game_edges.
           if game_edges \<noteq> []
           then bind_err (py_max (map edge_percent game_edges)) (\<lambda>m.
                  Inr [\<lparr>game = mg_away_team g @ '' @ '' @ mg_home_team g,
                        game_date = mg_date g,
                        game_consensus = consensus,
                        edges = game_edges,
                        max_edge = m,
                        sources_count = length (mg_predictions g)\<rparr>])
           else Inr []))"

fun reports_of_games :: "real \<Rightarrow> matched_game list \<Rightarrow> error + edge_game list" where
  "reports_of_games min_edge [] = Inr []"
| "reports_of_games min_edge (g # gs) =
     bind_err (report_of_game min_edge g) (\<lambda>r.
     bind_err (reports_of_games min_edge gs) (\<lambda>rs. Inr (r @ rs)))"

text \<open>The Edge Ranker: \<^verbatim>\<open>edges.sort(key=lambda x: (x['max_edge'], x['sources_count']), reverse=True)\<close>.\<close>

definition rank_reports :: "edge_game list \<Rightarrow> edge_game list" where
  "rank_reports rs = sort_reverse (\<lambda>x. (max_edge x, sources_count x)) rs"

section \<open>The pipeline of the edge finder\<close>

text \<open>
  The world outside the pipeline is a parameter. \<^verbatim>\<open>run_script\<close> starts another script
  with \<^verbatim>\<open>subprocess.run\<close> and parses its output; \<open>script_runner\<close> is what that gives for
  a script name and its arguments, \<open>None\<close> when the script exits with an error, prints
  no JSON, times out or cannot be started. \<^verbatim>\<open>run_script\<close> returns \<^verbatim>\<open>{}\<close> in each of
  these cases, an empty collection like \<^verbatim>\<open>[]\<close>. The clock gives the two dates that
  \<^verbatim>\<open>datetime.now()\<close> is formatted to.
\<close>

type_synonym script_runner = "string \<Rightarrow> string list \<Rightarrow> game_dict list option"

record clock =
  today :: string
  tomorrow :: string

definition run_script :: "script_runner \<Rightarrow> string \<Rightarrow> string list \<Rightarrow> game_dict list" where
  "run_script runner script_name args =
     (case runner script_name args of None \<Rightarrow> [] | Some data \<Rightarrow> data)"

text \<open>\<^verbatim>\<open>str.lower()\<close> on code points below 256.\<close>

definition py_lower_char :: "char \<Rightarrow> char" where
  "py_lower_char c =
     (let n = (of_char c :: nat)
      in if (65 \<le> n \<and> n \<le> 90) \<or> (192 \<le> n \<and> n \<le> 222 \<and> n \<noteq> 215)
         then char_of (n + 32) else c)"

definition parse_date :: "clock \<Rightarrow> string \<Rightarrow> string" where
  "parse_date clk date_str =
     (if map py_lower_char date_str = ''today'' then today clk
      else if map py_lower_char date_str = ''tomorrow'' then tomorrow clk
      else date_str)"

definition available_sources :: "string list" where
  "available_sources = [''barttorvik'', ''dratings'', ''kenpom'', ''haslametrics'', ''massey'']"

text \<open>
  \<^verbatim>\<open>get_multi_source_predictions\<close>: \<^verbatim>\<open>predictions[source] = data\<close> for each source in
  turn. Assigning to a key that is there keeps its place in the dictionary, as
  \<open>AList.update\<close> does.
\<close>

definition source_data :: "script_runner \<Rightarrow> string \<Rightarrow> string \<Rightarrow> game_dict list" where
  "source_data runner date_str source =
     (if source = ''barttorvik'' then run_script runner ''barttorvik'' [''rankings'', ''--top'', ''50'']
      else if source = ''dratings'' then run_script runner ''dratings'' [''predictions'', ''--date'', date_str]
      else if source = ''cbbpy'' then run_script runner ''cbbpy_tools'' [''games-today'', ''--date'', date_str]
      else [])"

definition get_multi_source_predictions ::
  "script_runner \<Rightarrow> string \<Rightarrow> string list \<Rightarrow> (string \<times> game_dict list) list" where
  "get_multi_source_predictions runner date_str sources =
     fold (\<lambda>source preds. AList.update source (source_data runner date_str source) preds) sources []"

text \<open>
  \<^verbatim>\<open>EdgeFinder.find_edges(date, sources, min_edge)\<close>: the body of its \<^verbatim>\<open>try\<close>, and the
  method with its handler \<^verbatim>\<open>except Exception: ... return []\<close>.
\<close>

definition find_edges_body ::
  "script_runner \<Rightarrow> clock \<Rightarrow> string option \<Rightarrow> string list option \<Rightarrow> real \<Rightarrow> error + edge_game list" where
  "find_edges_body runner clk date_arg sources_arg min_edge =
     (let date_str = (case date_arg of None \<Rightarrow> today clk | Some d \<Rightarrow> parse_date clk d);
          sources = (case sources_arg of
                       None \<Rightarrow> [''dratings'', ''cbbpy'']
                     | Some ss \<Rightarrow> if ''all'' \<in> set ss then available_sources else ss);
          preds = get_multi_source_predictions runner date_str sources;
          matched_games = match_games_across_sources preds
      in bind_err (reports_of_games min_edge matched_games) (\<lambda>rs. Inr (rank_reports rs)))"

definition find_edges ::
  "script_runner \<Rightarrow> clock \<Rightarrow> string option \<Rightarrow> string list option \<Rightarrow> real \<Rightarrow> error + edge_game list" where
  "find_edges runner clk date_arg sources_arg min_edge =
     (case find_edges_body runner clk date_arg sources_arg min_edge of
        Inl e \<Rightarrow> Inr []
      | Inr rs \<Rightarrow> Inr rs)"

section \<open>Edge finder of the DRatings analyzer\<close>

record dr_edge =
  dr_type :: string
  dr_team :: string
  dr_side :: string
  dr_model_prob :: real
  dr_market_prob :: real
  dr_edge_percent :: real
  recommended_bet :: string

record dr_edge_game =
  dr_game :: string
  dr_date :: string
  dr_edges :: "dr_edge list"
  dr_max_edge :: real

text \<open>
  Reading \<^verbatim>\<open>d[k]\<close> raises \<^verbatim>\<open>KeyError\<close> for a missing key; \<^verbatim>\<open>d.get(k)\<close> gives \<^verbatim>\<open>None\<close>.
\<close>

definition py_getitem :: "'a option \<Rightarrow> error + 'a" where
  "py_getitem v = (case v of None \<Rightarrow> Inl KeyError | Some x \<Rightarrow> Inr x)"

text \<open>
  One moneyline block of \<^verbatim>\<open>DRatingsAnalyzer.find_edges\<close>, guarded by
  \<^verbatim>\<open>if away_model_prob and away_ml_odds:\<close> (both there and not zero).
\<close>

definition dr_moneyline_block ::
  "real \<Rightarrow> string option \<Rightarrow> string \<Rightarrow> real option \<Rightarrow> int option \<Rightarrow> error + dr_edge list" where
  "dr_moneyline_block min_edge team_field side_name model_p ml_odds =
     (case (model_p, ml_odds) of
        (Some p, Some odds) \<Rightarrow>
          (if p \<noteq> 0 \<and> odds \<noteq> 0
           then bind_err (odds_to_probability odds) (\<lambda>market_p.
                bind_err (dr_calculate_edge p market_p) (\<lambda>e.
                  if \<bar>e\<bar> \<ge> min_edge
                  then bind_err (py_getitem team_field) (\<lambda>team_name.
                         Inr [\<lparr>dr_type = ''moneyline'',
                               dr_team = team_name,
                               dr_side = side_name,
                               dr_model_prob = p,
                               dr_market_prob = market_p,
                               dr_edge_percent = e,
                               recommended_bet = (if e > 0 then ''YES'' else ''NO'')\<rparr>])
                  else Inr []))
           else Inr [])
      | _ \<Rightarrow> Inr [])"

text \<open>The body of \<^verbatim>\<open>for game in predictions\<close>.\<close>

definition dr_report_of_game :: "real \<Rightarrow> game_dict \<Rightarrow> error + dr_edge_game list" where
  "dr_report_of_game min_edge g =
     bind_err (py_getitem (predictions g)) (\<lambda>pd.
     bind_err (py_getitem (market_data g)) (\<lambda>md.
     bind_err (dr_moneyline_block min_edge (away_team g) ''away''
                 (model_win_prob_away pd) (away_ml_odds md)) (\<lambda>away_edges.
     bind_err (dr_moneyline_block min_edge (home_team g) ''home''
                 (model_win_prob_home pd) (home_ml_odds md)) (\<lambda>home_edges.
       let game_edges = away_edges @ home_edges
       in if game_edges \<noteq> []
          then bind_err (py_getitem (away_team g)) (\<lambda>a.
               bind_err (py_getitem (home_team g)) (\<lambda>h.
               bind_err (py_getitem (date g)) (\<lambda>d.
               bind_err (py_max (map (\<lambda>e. \<bar>dr_edge_percent e\<bar>) game_edges)) (\<lambda>m.
                 Inr [\<lparr>dr_game = a @ '' @ '' @ h,
                       dr_date = d,
                       dr_edges = game_edges,
                       dr_max_edge = m\<rparr>]))))
          else Inr []))))"

fun dr_reports_of_games :: "real \<Rightarrow> game_dict list \<Rightarrow> error + dr_edge_game list" where
  "dr_reports_of_games min_edge [] = Inr []"
| "dr_reports_of_games min_edge (g # gs) =
     bind_err (dr_report_of_game min_edge g) (\<lambda>r.
     bind_err (dr_reports_of_games min_edge gs) (\<lambda>rs. Inr (r @ rs)))"

text \<open>
  \<^verbatim>\<open>DRatingsAnalyzer.find_edges\<close>, given what \<^verbatim>\<open>get_predictions(date)\<close> returned (the
  scraper's result, a list that is empty when scraping failed). The reports are sorted
  with \<^verbatim>\<open>edges.sort(key=lambda x: x['max_edge'], reverse=True)\<close>; any exception gives
  \<^verbatim>\<open>[]\<close>.
\<close>

definition dr_find_edges :: "game_dict list \<Rightarrow> real \<Rightarrow> error + dr_edge_game list" where
  "dr_find_edges scraped min_edge =
     (case dr_reports_of_games min_edge scraped of
        Inl e \<Rightarrow> Inr []
      | Inr rs \<Rightarrow> Inr (sort_reverse dr_max_edge rs))"

section \<open>Example data\<close>

text \<open>
  Games as the adapters return them, used to run the definitions. The first is a
  DRatings record for Duke at UNC on 2026-03-15: the model gives the away team 0.6 and
  the home team 0.3, the predicted spread is 0 (a pick'em), and no market odds were
  parsed. The second is another source's record of the same pairing a day later, with
  a predicted spread of 4.
\<close>

definition duke_unc_dratings :: game_dict where
  "duke_unc_dratings =
     \<lparr>date = Some ''2026-03-15'', away_team = Some ''Duke'', home_team = Some ''UNC'',
      predictions = Some \<lparr>model_win_prob_away = Some 0.6, model_win_prob_home = Some 0.3,
                           predicted_spread = Some 0, predicted_total = None\<rparr>,
      market_data = Some \<lparr>market_spread = None, market_total = None,
                           away_ml_odds = None, home_ml_odds = None\<rparr>\<rparr>"

definition duke_unc_cbbpy :: game_dict where
  "duke_unc_cbbpy =
     \<lparr>date = Some ''2026-03-16'', away_team = Some ''Duke'',
      home_team = Some ''University of North Carolina'',
      predictions = Some \<lparr>model_win_prob_away = None, model_win_prob_home = None,
                           predicted_spread = Some 4, predicted_total = None\<rparr>,
      market_data = None\<rparr>"

text \<open>The matched game that the matcher builds from the first record alone.\<close>

definition duke_unc_matched :: matched_game where
  "duke_unc_matched =
     \<lparr>mg_away_team = ''Duke'', mg_home_team = ''North Carolina'', mg_date = ''2026-03-15'',
      mg_predictions = [(''dratings'', duke_unc_dratings)]\<rparr>"

text \<open>The first record with market odds of +110 for the away and -110 for the home team.\<close>

definition duke_unc_with_odds :: game_dict where
  "duke_unc_with_odds =
     duke_unc_dratings\<lparr>market_data :=
       Some \<lparr>market_spread = None, market_total = None,
             away_ml_odds = Some 110, home_ml_odds = Some (- 110)\<rparr>\<rparr>"

section \<open>Properties of the odds conversion\<close>






section \<open>Properties of the edge percentage and the stake\<close>

text \<open>
  The edge finder's \<^verbatim>\<open>calculate_edge\<close> returns 0 for every market probability that is
  not positive, without dividing.
\<close>

lemma calculate_edge_nonpositive_market:
  "market_p \<le> 0 \<Longrightarrow> calculate_edge model_p market_p = Inr 0"
  by (simp add: calculate_edge_def)

text \<open>
  Claim C8: for every market probability \<open>\<le> 0\<close>, \<^verbatim>\<open>calculate_edge\<close> returns exactly 0
  and never divides by it. The DRatings analyzer's \<^verbatim>\<open>calculate_edge\<close> guards only
  \<^verbatim>\<open>market_prob == 0\<close>: at model probability 0.5 and market probability -0.5 it
  divides by the negative market probability and returns -200.
\<close>

theorem dr_calculate_edge_negative_market:
  "dr_calculate_edge 0.5 (- 0.5) = Inr (- 200) \<and> calculate_edge 0.5 (- 0.5) = Inr 0"
  by (simp add: dr_calculate_edge_def calculate_edge_def bind_err_def py_truediv_def)

text \<open>The stake when the model probability exceeds a positive market probability.\<close>

lemma kelly_criterion_positive_edge:
  assumes "0 < k" "k < m" "m \<le> 1"
  shows "kelly_criterion m k b = Inr (min (b * ((m - k) / (1 / k - 1))) (b * 0.05))"
proof -
  have "1 / k - 1 \<noteq> 0" using assms by (simp add: field_simps)
  then show ?thesis using assms
    by (simp add: kelly_criterion_def py_truediv_def bind_err_def Let_def)
qed

lemma kelly_criterion_no_edge:
  assumes "m - k \<le> 0" "k \<le> 1"
  shows "kelly_criterion m k b = Inr 0"
  using assms by (simp add: kelly_criterion_def py_truediv_def bind_err_def Let_def)

text \<open>
  Claim C2. For every model probability and market probability between 0 and 1 and
  every bankroll \<open>\<ge> 0\<close>, \<^verbatim>\<open>kelly_criterion\<close> returns a stake (it does not raise) that is
  at least 0 and at most \<open>bankroll * 0.05\<close>, and the stake is exactly 0 whenever the
  model probability does not exceed the market probability.
\<close>

theorem kelly_criterion_capped:
  assumes "0 \<le> m" "m \<le> 1" "0 \<le> k" "k \<le> 1" "0 \<le> b"
  shows "\<exists>s. kelly_criterion m k b = Inr s \<and> 0 \<le> s \<and> s \<le> b * 0.05
           \<and> (if m - k \<le> 0 then s = 0 else True)"
proof (cases "m - k \<le> 0")
  case True
  then show ?thesis using kelly_criterion_no_edge [OF True assms(4)] assms by simp
next
  case False
  show ?thesis
  proof (cases "k = 0")
    case True
    then have "kelly_criterion m k b = Inr 0" by (simp add: kelly_criterion_def)
    then show ?thesis using assms False by simp
  next
    case k: False
    then have kp: "0 < k" "k < m" using assms False by simp_all
    have "0 < 1 / k - 1" using kp assms by (simp add: field_simps)
    then have "0 \<le> (m - k) / (1 / k - 1)" using kp by simp
    then have "0 \<le> b * ((m - k) / (1 / k - 1))"
      using assms(5) by (rule mult_nonneg_nonneg [rotated])
    then show ?thesis
      using kelly_criterion_positive_edge [OF kp assms(2)] assms(5) False by (simp add: min_def)
  qed
qed

theorem kelly_criterion_capped_witness:
  "kelly_criterion 0.99 0.01 1000 = Inr (980 / 99) \<and> (980 / 99 :: real) \<le> 1000 * 0.05
   \<and> kelly_criterion 0.9 0.5 1000 = Inr 50
   \<and> kelly_criterion 0.4 0.6 1000 = Inr 0"
  using kelly_criterion_capped [of "0.99" "0.01" 1000] kelly_criterion_capped [of "0.9" "0.5" 1000]
    kelly_criterion_capped [of "0.4" "0.6" 1000]
  by (simp add: kelly_criterion_def bind_err_def py_truediv_def Let_def)

section \<open>Properties of the team identity resolver\<close>

lemma py_replace_absent:
  "old \<noteq> [] \<Longrightarrow> \<not> py_contains old s \<Longrightarrow> py_replace old new s = s"
  by (induction s) auto

text \<open>
  Claim C7, as stated: the resolver is total and its result is exactly the
  specification's algorithm, which strips only \<^verbatim>\<open>"University of "\<close>, \<^verbatim>\<open>" University"\<close> and
  \<^verbatim>\<open>"College"\<close>. The method also rewrites \<^verbatim>\<open>" State"\<close> to \<^verbatim>\<open>" St"\<close>, so the two differ on
  \<^verbatim>\<open>"Ohio State"\<close>.
\<close>

theorem normalize_team_names_counterexample:
  "normalize_team_names ''Ohio State'' = ''Ohio St''
   \<and> resolve_spec name_mapping ''Ohio State'' = ''Ohio State''"
  by (simp add: normalize_team_names_def resolve_spec_def py_strip_def py_isspace_def
      name_mapping_def)

text \<open>
  Claim C7, amended: the resolver returns a string for every raw name; between the
  stripping of \<^verbatim>\<open>" University"\<close> and of \<^verbatim>\<open>"College"\<close> it rewrites \<^verbatim>\<open>" State"\<close> to \<^verbatim>\<open>" St"\<close>;
  on every name in which \<^verbatim>\<open>" State"\<close> does not occur after trimming and stripping
  \<^verbatim>\<open>"University of "\<close> and \<^verbatim>\<open>" University"\<close>, its result is exactly the specification's:
  trim, strip the three fillers, alias table, and the stripped string itself when no
  alias matches.
\<close>

theorem normalize_team_names_without_State:
  assumes "\<not> py_contains '' State''
             (py_replace '' University'' ''''
               (py_replace ''University of '' '''' (py_strip team_name)))"
  shows "normalize_team_names team_name = resolve_spec name_mapping team_name"
proof -
  have "py_replace '' State'' '' St''
          (py_replace '' University'' ''''
            (py_replace ''University of '' '''' (py_strip team_name)))
        = py_replace '' University'' ''''
            (py_replace ''University of '' '''' (py_strip team_name))"
    using assms by (intro py_replace_absent) simp_all
  then show ?thesis
    by (simp add: normalize_team_names_def resolve_spec_def Let_def cong: option.case_cong)
qed

theorem normalize_team_names_without_State_witness:
  "\<not> py_contains '' State''
       (py_replace '' University'' ''''
         (py_replace ''University of '' '''' (py_strip ''  University of UConn '')))
   \<and> normalize_team_names ''  University of UConn '' = ''Connecticut''
   \<and> resolve_spec name_mapping ''  University of UConn '' = ''Connecticut''"
  using normalize_team_names_without_State [of "''  University of UConn ''"]
  by (simp add: resolve_spec_def py_strip_def py_isspace_def name_mapping_def)

section \<open>Properties of the game matcher\<close>

lemma in_update_cases:
  "(s, g) \<in> set (AList.update k v al) \<Longrightarrow> (s, g) = (k, v) \<or> (s, g) \<in> set al"
  by (induction al) (auto split: if_splits)

lemma in_update_other:
  "k \<noteq> s \<Longrightarrow> (s, g) \<in> set al \<Longrightarrow> (s, g) \<in> set (AList.update k v al)"
  by (induction al) auto

lemma attach_matches_set:
  "(s, g) \<in> set (attach_matches base away home preds acc) \<Longrightarrow>
   (s, g) \<in> set acc \<or> is_same_game g away home"
proof (induction preds arbitrary: acc)
  case Nil
  then show ?case by simp
next
  case (Cons p preds)
  obtain source games where p: "p = (source, games)" by (cases p)
  show ?case
  proof (cases "source = base")
    case True
    with Cons p show ?thesis by simp
  next
    case False
    show ?thesis
    proof (cases "find (\<lambda>game. is_same_game game away home) games")
      case None
      with Cons p False show ?thesis by simp
    next
      case (Some game)
      then have same: "is_same_game game away home" by (auto simp: find_Some_iff)
      from Cons.prems p False Some
      have "(s, g) \<in> set (attach_matches base away home preds (AList.update source game acc))"
        by simp
      then have "(s, g) \<in> set (AList.update source game acc) \<or> is_same_game g away home"
        by (rule Cons.IH)
      then show ?thesis using same by (auto dest: in_update_cases)
    qed
  qed
qed

lemma attach_matches_keeps_base:
  "(base, g0) \<in> set acc \<Longrightarrow> (base, g0) \<in> set (attach_matches base away home preds acc)"
proof (induction preds arbitrary: acc)
  case Nil
  then show ?case by simp
next
  case (Cons p preds)
  obtain source games where p: "p = (source, games)" by (cases p)
  show ?case using Cons p
    by (auto split: option.splits intro!: Cons.IH in_update_other)
qed

lemma is_same_game_iff:
  "is_same_game g away home \<longleftrightarrow>
   (\<exists>a h. away_team g = Some a \<and> home_team g = Some h
      \<and> normalize_team_names a = away \<and> normalize_team_names h = home)"
  by (auto simp: is_same_game_def split: option.splits)

lemma match_base_game_teams:
  assumes "match_base_game base preds g0 = Some mg" "(s, g) \<in> set (mg_predictions mg)"
  shows "is_same_game g (mg_away_team mg) (mg_home_team mg)"
proof -
  from assms(1) obtain a h where ah: "away_team g0 = Some a" "home_team g0 = Some h"
    and mg: "mg_away_team mg = normalize_team_names a" "mg_home_team mg = normalize_team_names h"
      "mg_predictions mg = attach_matches base (normalize_team_names a) (normalize_team_names h) preds [(base, g0)]"
    by (auto simp: match_base_game_def Let_def split: option.splits)
  from assms(2) mg(3) have "(s, g) \<in> set [(base, g0)] \<or> is_same_game g (normalize_team_names a) (normalize_team_names h)"
    by (auto dest: attach_matches_set)
  moreover have "is_same_game g0 (normalize_team_names a) (normalize_team_names h)"
    using ah by (simp add: is_same_game_def)
  ultimately show ?thesis using mg by auto
qed

lemma match_base_game_date:
  assumes "match_base_game base preds g0 = Some mg"
  shows "(base, g0) \<in> set (mg_predictions mg) \<and> mg_date mg = (case date g0 of Some d \<Rightarrow> d | None \<Rightarrow> '''')"
  using assms
  by (auto simp: match_base_game_def Let_def split: option.splits intro!: attach_matches_keeps_base)

lemma match_games_origin:
  assumes "mg \<in> set (match_games_across_sources preds)"
  shows "\<exists>base base_games g0. base_source_of preds = Some base \<and> map_of preds base = Some base_games
           \<and> g0 \<in> set base_games \<and> match_base_game base preds g0 = Some mg"
proof (cases "base_source_of preds")
  case None
  with assms show ?thesis by (simp add: match_games_across_sources_def)
next
  case (Some base)
  show ?thesis
  proof (cases "map_of preds base")
    case None
    with assms Some show ?thesis by (simp add: match_games_across_sources_def)
  next
    case games: (Some base_games)
    from assms Some games
    have "mg \<in> set (List.map_filter (match_base_game base preds) base_games)"
      by (simp add: match_games_across_sources_def)
    then obtain g0 where "g0 \<in> set base_games" "match_base_game base preds g0 = Some mg"
      by (auto simp: map_filter_def)
    with Some games show ?thesis by blast
  qed
qed

text \<open>
  Claim C4, as stated: every prediction attached to a matched game has the game's key
  (canonical away team, canonical home team, date), so records that differ in date are
  never merged. \<^verbatim>\<open>is_same_game\<close> compares the two teams only: a record of the same
  pairing dated a day later is attached to the game of 2026-03-15.
\<close>

theorem match_games_across_dates_counterexample:
  "match_games_across_sources
     [(''dratings'', [duke_unc_dratings]), (''cbbpy'', [duke_unc_cbbpy])]
   = [\<lparr>mg_away_team = ''Duke'', mg_home_team = ''North Carolina'', mg_date = ''2026-03-15'',
       mg_predictions = [(''dratings'', duke_unc_dratings), (''cbbpy'', duke_unc_cbbpy)]\<rparr>]
   \<and> date duke_unc_cbbpy = Some ''2026-03-16''"
  by (simp add: match_games_across_sources_def base_source_of_def match_base_game_def
      map_filter_simps Let_def is_same_game_def duke_unc_dratings_def duke_unc_cbbpy_def
      normalize_team_names_def py_strip_def py_isspace_def name_mapping_def)

text \<open>
  Claim C4, amended: for every matched game that the matcher produces, every prediction
  attached to it has both team names, and they resolve to the game's canonical away
  team and canonical home team, in this order; the game's date is the date of the
  anchor source's record, which is among the attached predictions (the empty string
  when that record has no date). The dates of the other sources' records are not
  compared.
\<close>

theorem matched_predictions_same_teams:
  assumes "mg \<in> set (match_games_across_sources preds)"
    and "(source, g) \<in> set (mg_predictions mg)"
  shows "(\<exists>a h. away_team g = Some a \<and> home_team g = Some h
            \<and> normalize_team_names a = mg_away_team mg
            \<and> normalize_team_names h = mg_home_team mg)
         \<and> (\<exists>base g0. base_source_of preds = Some base \<and> (base, g0) \<in> set (mg_predictions mg)
               \<and> mg_date mg = (case date g0 of Some d \<Rightarrow> d | None \<Rightarrow> ''''))"
proof -
  from match_games_origin [OF assms(1)] obtain base base_games g0 where
    b: "base_source_of preds = Some base" and m: "match_base_game base preds g0 = Some mg"
    by blast
  have "is_same_game g (mg_away_team mg) (mg_home_team mg)"
    using m assms(2) by (rule match_base_game_teams)
  then have "\<exists>a h. away_team g = Some a \<and> home_team g = Some h
            \<and> normalize_team_names a = mg_away_team mg
            \<and> normalize_team_names h = mg_home_team mg"
    by (simp add: is_same_game_iff)
  moreover have "\<exists>base g0. base_source_of preds = Some base \<and> (base, g0) \<in> set (mg_predictions mg)
               \<and> mg_date mg = (case date g0 of Some d \<Rightarrow> d | None \<Rightarrow> '''')"
    using b match_base_game_date [OF m] by blast
  ultimately show ?thesis by blast
qed


theorem matched_predictions_same_teams_witness:
  "duke_unc_matched \<in> set (match_games_across_sources [(''dratings'', [duke_unc_dratings])])
   \<and> (''dratings'', duke_unc_dratings) \<in> set (mg_predictions duke_unc_matched)
   \<and> normalize_team_names ''Duke'' = mg_away_team duke_unc_matched
   \<and> normalize_team_names ''UNC'' = mg_home_team duke_unc_matched
   \<and> base_source_of [(''dratings'', [duke_unc_dratings])] = Some ''dratings''"
proof -
  have m: "duke_unc_matched \<in> set (match_games_across_sources [(''dratings'', [duke_unc_dratings])])"
    by (simp add: match_games_across_sources_def base_source_of_def match_base_game_def
        map_filter_simps Let_def duke_unc_dratings_def duke_unc_matched_def
        normalize_team_names_def py_strip_def py_isspace_def name_mapping_def)
  have p: "(''dratings'', duke_unc_dratings) \<in> set (mg_predictions duke_unc_matched)"
    by (simp add: duke_unc_matched_def)
  have t: "away_team duke_unc_dratings = Some ''Duke''" "home_team duke_unc_dratings = Some ''UNC''"
    by (simp_all add: duke_unc_dratings_def)
  have b: "base_source_of [(''dratings'', [duke_unc_dratings])] = Some ''dratings''"
    by (simp add: base_source_of_def)
  from matched_predictions_same_teams [OF m p] t
  have "normalize_team_names ''Duke'' = mg_away_team duke_unc_matched"
    "normalize_team_names ''UNC'' = mg_home_team duke_unc_matched"
    by auto
  with m p b show ?thesis by simp
qed

section \<open>Properties of the consensus aggregator\<close>

text \<open>
  What the aggregator collects for a metric is what the sources report for it, without
  the values that are zero: the truth test drops them together with the missing ones.
\<close>

lemma collect_values_filter:
  "collect_values field ps = filter (\<lambda>v. v \<noteq> 0) (present_values field ps)"
  by (induction field ps rule: collect_values.induct) (auto simp: truthy_def split: option.splits)

lemma collect_values_nonzero:
  "0 \<notin> set (present_values field ps) \<Longrightarrow> collect_values field ps = present_values field ps"
  by (simp add: collect_values_filter filter_id_conv) metis

lemma consensus_absent_iff:
  "calculate_consensus_prediction matched_game key = None
   \<longleftrightarrow> collect_values (metric_field key) (mg_predictions matched_game) = []"
  by (simp add: calculate_consensus_prediction_def Let_def)

lemma consensus_count_positive:
  "calculate_consensus_prediction matched_game key = Some st \<Longrightarrow> 0 < count st"
  by (auto simp: calculate_consensus_prediction_def Let_def split: if_splits)

text \<open>
  When no source reports a zero for the metric, the entry is there exactly when a value
  is present, with the mean, the population standard deviation (0 below two values)
  and the number of the present values.
\<close>

lemma consensus_of_nonzero_values:
  assumes "0 \<notin> set (present_values (metric_field key) (mg_predictions matched_game))"
  shows "calculate_consensus_prediction matched_game key =
     (let vs = present_values (metric_field key) (mg_predictions matched_game);
          n = real (length vs);
          mean = sum_list vs / n
      in if vs = [] then None
         else Some \<lparr>avg = mean,
                    std = (if length vs < 2 then 0
                           else sqrt (sum_list (map (\<lambda>x. (x - mean) ^ 2) vs) / n)),
                    count = length vs\<rparr>)"
proof -
  have "collect_values (metric_field key) (mg_predictions matched_game)
        = present_values (metric_field key) (mg_predictions matched_game)"
    using assms by (rule collect_values_nonzero)
  then show ?thesis
    by (auto simp: calculate_consensus_prediction_def Let_def np_mean_def np_std_def)
qed

lemma consensus_duke_unc:
  "calculate_consensus_prediction duke_unc_matched =
     (\<lambda>key. if key = Away_win_prob then Some \<lparr>avg = 0.6, std = 0, count = 1\<rparr>
            else if key = Home_win_prob then Some \<lparr>avg = 0.3, std = 0, count = 1\<rparr>
            else None)"
proof (rule ext)
  fix key
  show "calculate_consensus_prediction duke_unc_matched key =
     (if key = Away_win_prob then Some \<lparr>avg = 0.6, std = 0, count = 1\<rparr>
      else if key = Home_win_prob then Some \<lparr>avg = 0.3, std = 0, count = 1\<rparr>
      else None)"
    by (cases key)
      (simp_all add: calculate_consensus_prediction_def duke_unc_matched_def
        duke_unc_dratings_def truthy_def np_mean_def)
qed

text \<open>
  Claim C3: the consensus has an entry for a metric if and only if at least one source
  supplies a present value for it, with the mean, the population standard deviation
  and the count of all present values. A predicted spread of 0 is a present value, and
  the aggregator drops it: with the single spread 0 the entry is absent, and with the
  spreads 0 and 4 of two sources the entry has mean 4 and count 1, where the claim
  gives mean 2 and count 2.
\<close>

theorem consensus_drops_zero_spread:
  "present_values predicted_spread (mg_predictions duke_unc_matched) = [0]
   \<and> calculate_consensus_prediction duke_unc_matched Spread = None
   \<and> present_values predicted_spread
        [(''dratings'', duke_unc_dratings), (''cbbpy'', duke_unc_cbbpy)] = [0, 4]
   \<and> calculate_consensus_prediction
        \<lparr>mg_away_team = ''Duke'', mg_home_team = ''North Carolina'', mg_date = ''2026-03-15'',
         mg_predictions = [(''dratings'', duke_unc_dratings), (''cbbpy'', duke_unc_cbbpy)]\<rparr>
        Spread
      = Some \<lparr>avg = 4, std = 0, count = 1\<rparr>"
  by (simp add: calculate_consensus_prediction_def duke_unc_matched_def duke_unc_dratings_def
      duke_unc_cbbpy_def truthy_def np_mean_def)

section \<open>Properties of the edge evaluators\<close>

text \<open>
  Both evaluators emit an edge only at or above the threshold, and only for a side
  whose model value is there. The DRatings analyzer also needs the side's market odds.
\<close>

lemma moneyline_block_threshold:
  assumes "moneyline_block consensus min_edge team_name side_name key ml_odds = Inr es"
    and "e \<in> set es"
  shows "min_edge \<le> \<bar>edge_percent e\<bar>
     \<and> (\<exists>st. consensus key = Some st \<and> model_prob e = avg st)
     \<and> odds_to_probability ml_odds = Inr (market_prob e)"
  using assms
  by (auto simp: moneyline_block_def bind_err_def split: option.splits if_splits sum.splits)

lemma dr_moneyline_block_threshold:
  assumes "dr_moneyline_block min_edge team_field side_name model_p ml_odds = Inr es"
    and "e \<in> set es"
  shows "min_edge \<le> \<bar>dr_edge_percent e\<bar>
     \<and> (\<exists>odds. ml_odds = Some odds \<and> odds \<noteq> 0
           \<and> odds_to_probability odds = Inr (dr_market_prob e))
     \<and> model_p = Some (dr_model_prob e)"
  using assms
  by (auto simp: dr_moneyline_block_def bind_err_def py_getitem_def
      split: option.splits if_splits sum.splits)

lemma dr_moneyline_block_no_line:
  "ml_odds = None \<or> model_p = None \<Longrightarrow>
   dr_moneyline_block min_edge team_field side_name model_p ml_odds = Inr []"
  by (auto simp: dr_moneyline_block_def split: option.splits)

lemma dr_find_edges_without_odds: "dr_find_edges [duke_unc_dratings] 2 = Inr []"
  by (simp add: dr_find_edges_def dr_report_of_game_def dr_moneyline_block_def py_getitem_def
      duke_unc_dratings_def bind_err_def Let_def sort_reverse_def)

lemma identify_game_edges_duke_unc:
  "identify_game_edges duke_unc_matched (calculate_consensus_prediction duke_unc_matched) 2
   = Inr [\<lparr>edge_type = ''moneyline'', team = ''Duke'', side = ''away'', model_prob = 0.6,
           market_prob = 10 / 21, edge_percent = 26, kelly_bet_amount = 50,
           confidence = 60, recommended = True\<rparr>,
          \<lparr>edge_type = ''moneyline'', team = ''North Carolina'', side = ''home'',
           model_prob = 0.3, market_prob = 11 / 21, edge_percent = - (470 / 11),
           kelly_bet_amount = 0, confidence = 60, recommended = False\<rparr>]"
  unfolding consensus_duke_unc
  by (simp add: identify_game_edges_def moneyline_block_def placeholder_market_def
      odds_to_probability_def calculate_edge_def kelly_criterion_def py_truediv_def
      bind_err_def calculate_confidence_def duke_unc_matched_def Let_def)

text \<open>
  Claim C1: an edge is emitted only when the absolute edge percentage reaches the
  threshold and both the consensus metric and a market line from the betting-line
  collaborator are there for the side; without a market line there is no edge, and no
  market value is invented. \<^verbatim>\<open>EdgeFinder.identify_game_edges\<close> receives no market line
  and measures every game against its own placeholder odds of +110 and -110: for the
  game whose only record has no market odds it emits two edges, with market
  probabilities 10/21 and 11/21, and recommends a capped stake of 50 on the first.
\<close>

theorem identify_game_edges_invents_market:
  "market_data duke_unc_dratings
     = Some \<lparr>market_spread = None, market_total = None, away_ml_odds = None, home_ml_odds = None\<rparr>
   \<and> mg_predictions duke_unc_matched = [(''dratings'', duke_unc_dratings)]
   \<and> bind_err
        (identify_game_edges duke_unc_matched (calculate_consensus_prediction duke_unc_matched) 2)
        (\<lambda>es. Inr (map (\<lambda>e. (side e, market_prob e, edge_percent e, kelly_bet_amount e,
                               recommended e)) es))
     = Inr [(''away'', 10 / 21, 26, 50, True), (''home'', 11 / 21, - (470 / 11), 0, False)]"
  by (simp add: identify_game_edges_duke_unc bind_err_def)
    (simp add: duke_unc_dratings_def duke_unc_matched_def)

section \<open>Properties of the edge ranker\<close>

text \<open>
  \<^verbatim>\<open>sort(key=k, reverse=True)\<close> gives a list in descending order of the key, with the
  same elements, and keeps the order of the elements that have the same key.
\<close>

lemma sort_reverse_sorted: "sorted_wrt (\<lambda>a b. k a \<ge> k b) (sort_reverse k xs)"
proof -
  have "sorted (map k (sort_key k (rev xs)))" by (rule sorted_sort_key)
  then have "sorted_wrt (\<lambda>a b. k a \<le> k b) (sort_key k (rev xs))"
    by (simp add: sorted_map)
  then show ?thesis
    by (simp add: sort_reverse_def sorted_wrt_rev)
qed

lemma sort_reverse_mset: "mset (sort_reverse k xs) = mset xs"
  by (simp add: sort_reverse_def)

lemma sort_reverse_stable:
  "filter (\<lambda>y. k y = a) (sort_reverse k xs) = filter (\<lambda>y. k y = a) xs"
  by (simp add: sort_reverse_def rev_filter [symmetric] sort_key_stable)

lemma rank_reports_sorted:
  "sorted_wrt (\<lambda>a b. (max_edge a, sources_count a) \<ge> (max_edge b, sources_count b))
     (rank_reports rs)"
  unfolding rank_reports_def by (rule sort_reverse_sorted)

lemma rank_reports_mset: "mset (rank_reports rs) = mset rs"
  unfolding rank_reports_def by (rule sort_reverse_mset)

lemma rank_reports_stable:
  "filter (\<lambda>r. (max_edge r, sources_count r) = key) (rank_reports rs)
   = filter (\<lambda>r. (max_edge r, sources_count r) = key) rs"
  unfolding rank_reports_def by (rule sort_reverse_stable)

text \<open>The example of the specification, on the sort keys (maximum edge, source count).\<close>

lemma sort_reverse_example:
  "sort_reverse (\<lambda>x. x) [(4 :: real, 5 :: nat), (9, 2), (9, 4)] = [(9, 4), (9, 2), (4, 5)]"
  by (simp add: sort_reverse_def less_eq_prod_def less_prod_def)

text \<open>
  The DRatings analyzer sets \<^verbatim>\<open>max_edge\<close> to \<^verbatim>\<open>max(abs(edge['edge_percent']) ...)\<close>: for the
  edges 26 and -470/11 it is 470/11.
\<close>

lemma dr_find_edges_max_abs:
  "bind_err (dr_find_edges [duke_unc_with_odds] 2)
     (\<lambda>rs. Inr (map (\<lambda>r. (dr_max_edge r, map dr_edge_percent (dr_edges r))) rs))
   = Inr [(470 / 11, [26, - (470 / 11)])]"
  by (simp add: dr_find_edges_def dr_report_of_game_def dr_moneyline_block_def py_getitem_def
      duke_unc_with_odds_def duke_unc_dratings_def odds_to_probability_def dr_calculate_edge_def
      py_truediv_def bind_err_def Let_def sort_reverse_def)

lemma match_games_duke_unc:
  "match_games_across_sources [(''dratings'', [duke_unc_dratings]), (''cbbpy'', [])]
   = [duke_unc_matched]"
  by (simp add: match_games_across_sources_def base_source_of_def match_base_game_def
      map_filter_simps Let_def duke_unc_dratings_def duke_unc_matched_def
      normalize_team_names_def py_strip_def py_isspace_def name_mapping_def)

text \<open>
  Claim C6: the ranked reports are a stable sort, descending by the game's maximum
  absolute edge percentage and then by the number of sources, and the field
  \<^verbatim>\<open>max_edge\<close> of a report is that maximum absolute edge percentage. The sort is as
  claimed on the field, but \<^verbatim>\<open>EdgeFinder.find_edges\<close> fills the field with
  \<^verbatim>\<open>max(edge['edge_percent'] ...)\<close>, the largest signed edge: the report returned for the
  game with the edges 26 and -470/11 (about -42.7) has \<^verbatim>\<open>max_edge\<close> 26, not 470/11.
\<close>

theorem find_edges_max_edge_signed:
  "bind_err
     (find_edges (\<lambda>script args. if script = ''dratings'' then Some [duke_unc_dratings] else None)
        \<lparr>today = ''2026-03-15'', tomorrow = ''2026-03-16''\<rparr> None None 2)
     (\<lambda>rs. Inr (map (\<lambda>r. (max_edge r, map edge_percent (edges r))) rs))
   = Inr [(26, [26, - (470 / 11)])]"
  by (simp add: find_edges_def find_edges_body_def get_multi_source_predictions_def
      source_data_def run_script_def match_games_duke_unc report_of_game_def
      identify_game_edges_duke_unc bind_err_def Let_def rank_reports_def sort_reverse_def)

section \<open>Properties of the pipeline\<close>








end
